theory Spec2Isabelle
  imports Complex_Main "HOL-Library.Sublist"
begin

section \<open>The edge A/B assignment handler of cdk/lib/lambda/ab-lambda-function.js\<close>

subsection \<open>Data model\<close>

text \<open>
  The handler is a JavaScript function over the CloudFront viewer-request event. An
  object property that the event may lack is an \<open>option\<close> field: reading it gives
  \<open>undefined\<close> (\<open>None\<close>), and reading a property of \<open>undefined\<close> raises
  \<open>TypeError\<close>, the only exception the handler can raise.
\<close>

datatype js_error = TypeError

text \<open>A header entry \<open>{key, value}\<close>; the source's field \<open>value\<close> is \<open>val\<close> here.\<close>

record header_entry =
  key :: "string option"
  val :: "string option"

text \<open>A headers object: header name to its entries, in the order the object lists them.\<close>

type_synonym header_map = "(string \<times> header_entry list) list"

text \<open>
  The synthesized response \<open>{status, statusDescription, headers}\<close> of the handler.
\<close>

record redirect =
  status :: string
  statusDescription :: string
  headers :: header_map

text \<open>
  The request \<open>event.Records[0].cf.request\<close>. The handler reads its \<open>headers\<close> only;
  every other field of the request is the record's extension.
\<close>

record request =
  headers :: "header_map option"

record 'a cloudfront =
  request :: "'a request_scheme option"

record 'a event_record =
  cf :: "'a cloudfront option"

record 'a event =
  Records :: "'a event_record list option"

text \<open>
  What the handler passes to \<open>callback(null, response)\<close>: the request object itself
  (\<open>response = request\<close>) or the redirect object.
\<close>

datatype 'a response = Forward "'a request_scheme" | Redirect redirect

subsection \<open>Constants of the handler\<close>

definition groupBUri :: string where
  "groupBUri = ''/blue/''"

definition cookieExperimentA :: string where
  "cookieExperimentA = ''X-Experiment-Name=A''"

definition cookieExperimentB :: string where
  "cookieExperimentB = ''X-Experiment-Name=B''"

subsection \<open>String.prototype.indexOf\<close>

text \<open>
  \<open>s.indexOf(pat)\<close>: the index of the first occurrence of \<open>pat\<close> in \<open>s\<close>, or \<open>-1\<close>.
  \<open>indexOf_from s pat i\<close> searches the rest \<open>s\<close> of the string, which starts at index \<open>i\<close>.
  The search compares code units one by one; the characters of \<open>string\<close> stand for them.
\<close>

fun indexOf_from :: "string \<Rightarrow> string \<Rightarrow> int \<Rightarrow> int" where
  "indexOf_from [] pat i = (if pat = [] then i else - 1)"
| "indexOf_from (c # s) pat i =
     (if prefix pat (c # s) then i else indexOf_from s pat (i + 1))"

definition indexOf :: "string \<Rightarrow> string \<Rightarrow> int" where
  "indexOf s pat = indexOf_from s pat 0"

subsection \<open>The handler\<close>

text \<open>The two variables the cookie loop assigns.\<close>

record scan_state =
  selectedExperiment :: string
  cookiePresent :: bool

text \<open>
  The loop \<open>for (let i = 0; i < headers.cookie.length; i++)\<close> over the entries from
  index \<open>i\<close> on: \<open>break\<close> at the first entry whose value holds a marker, the A marker
  tested first; \<open>TypeError\<close> at an entry without a \<open>value\<close>.
\<close>

fun scan_cookies :: "header_entry list \<Rightarrow> scan_state \<Rightarrow> js_error + scan_state" where
  "scan_cookies [] st = Inr st"
| "scan_cookies (c # cs) st =
     (case val c of
        None \<Rightarrow> Inl TypeError
      | Some v \<Rightarrow>
          if indexOf v cookieExperimentA \<ge> 0 then
            Inr (st\<lparr>selectedExperiment := cookieExperimentA, cookiePresent := True\<rparr>)
          else if indexOf v cookieExperimentB \<ge> 0 then
            Inr (st\<lparr>selectedExperiment := cookieExperimentB, cookiePresent := True\<rparr>)
          else scan_cookies cs st)"

text \<open>
  The variables as declared before the loop: \<open>let selectedExperiment = cookieExperimentA\<close>
  and \<open>let cookiePresent = false\<close>.
\<close>

definition initial_state :: scan_state where
  "initial_state = \<lparr>selectedExperiment = cookieExperimentA, cookiePresent = False\<rparr>"

text \<open>\<open>event.Records[0].cf.request\<close>; the request itself may be \<open>undefined\<close>.\<close>

definition viewer_request :: "'a event \<Rightarrow> js_error + 'a request_scheme option" where
  "viewer_request event =
     (case Records event of
        None \<Rightarrow> Inl TypeError
      | Some rs \<Rightarrow>
          (case rs of
             [] \<Rightarrow> Inl TypeError
           | r # _ \<Rightarrow>
               (case cf r of
                  None \<Rightarrow> Inl TypeError
                | Some c \<Rightarrow> Inr (request c))))"

text \<open>
  The variant drawn when no cookie was recognized; \<open>random\<close> is the value of
  \<open>Math.random()\<close>, a double in \<open>[0, 1)\<close> read as the real number it denotes. The
  bound \<open>0.75\<close> is itself a double, so the comparison of the source is the comparison
  of the reals.
\<close>

definition throw_dice :: "real \<Rightarrow> string" where
  "throw_dice random =
     (if random < 0.75 then cookieExperimentA else cookieExperimentB)"

text \<open>The response of the branch \<open>!cookiePresent\<close>, for the variant drawn.\<close>

definition redirect_to :: "string \<Rightarrow> redirect" where
  "redirect_to selected =
     \<lparr>status = ''302'',
      statusDescription = ''Found'',
      redirect.headers =
        [(''location'',
            [\<lparr>key = Some ''Location'',
              val = Some (if selected = cookieExperimentB then groupBUri else ''/'')\<rparr>]),
         (''set-cookie'',
            [\<lparr>key = Some ''Set-Cookie'', val = Some selected\<rparr>])]\<rparr>"

text \<open>
  The handler: \<open>Inr\<close> is the response given to the callback, \<open>Inl\<close> an exception
  thrown before the callback is reached. The \<open>console.log\<close> calls have no effect on
  either and are left out.
\<close>

definition handler :: "'a event \<Rightarrow> real \<Rightarrow> js_error + 'a response" where
  "handler event random =
     (case viewer_request event of
        Inl e \<Rightarrow> Inl e
      | Inr None \<Rightarrow> Inl TypeError
      | Inr (Some req) \<Rightarrow>
          (case request.headers req of
             None \<Rightarrow> Inl TypeError
           | Some hs \<Rightarrow>
               (case (case map_of hs ''cookie'' of
                        None \<Rightarrow> Inr initial_state
                      | Some cookie \<Rightarrow> scan_cookies cookie initial_state) of
                  Inl e \<Rightarrow> Inl e
                | Inr st \<Rightarrow>
                    if \<not> cookiePresent st then Inr (Redirect (redirect_to (throw_dice random)))
                    else Inr (Forward req))))"

section \<open>Properties\<close>

subsection \<open>The substring test and the cookie loop\<close>

text \<open>\<open>s.indexOf(pat) >= 0\<close> holds exactly when \<open>pat\<close> is a substring of \<open>s\<close>.\<close>

lemma indexOf_from_sublist: "0 \<le> i \<Longrightarrow> (0 \<le> indexOf_from s pat i) = sublist pat s"
  by (induction s pat i rule: indexOf_from.induct) (auto simp: sublist_Cons_right)

lemma indexOf_sublist: "(0 \<le> indexOf s pat) = sublist pat s"
  by (simp add: indexOf_def indexOf_from_sublist)

lemma scan_cookies_Cons:
  "val c = Some v \<Longrightarrow>
   scan_cookies (c # cs) st =
     (if sublist cookieExperimentA v then
        Inr (st\<lparr>selectedExperiment := cookieExperimentA, cookiePresent := True\<rparr>)
      else if sublist cookieExperimentB v then
        Inr (st\<lparr>selectedExperiment := cookieExperimentB, cookiePresent := True\<rparr>)
      else scan_cookies cs st)"
  by (simp add: indexOf_sublist)

lemma scan_cookies_skip:
  assumes "\<forall>p \<in> set pre. \<exists>v. val p = Some v \<and> \<not> sublist cookieExperimentA v
             \<and> \<not> sublist cookieExperimentB v"
  shows "scan_cookies (pre @ cs) st = scan_cookies cs st"
  using assms
proof (induction pre)
  case Nil
  then show ?case by simp
next
  case (Cons p pre)
  then obtain v where "val p = Some v" "\<not> sublist cookieExperimentA v"
    "\<not> sublist cookieExperimentB v"
    by auto
  with Cons show ?case
    by (simp add: scan_cookies_Cons del: scan_cookies.simps)
qed

lemma scan_cookies_unrecognized:
  assumes "\<forall>p \<in> set cs. \<exists>v. val p = Some v \<and> \<not> sublist cookieExperimentA v
             \<and> \<not> sublist cookieExperimentB v"
  shows "scan_cookies cs st = Inr st"
  using scan_cookies_skip [OF assms, of "[]" st] by simp

lemma scan_cookies_present:
  assumes "\<forall>e \<in> set cs. \<exists>v. val e = Some v"
    and "\<exists>e \<in> set cs. \<exists>v. val e = Some v
           \<and> (sublist cookieExperimentA v \<or> sublist cookieExperimentB v)"
  shows "\<exists>st'. scan_cookies cs st = Inr st' \<and> cookiePresent st'"
  using assms
proof (induction cs)
  case Nil
  then show ?case by simp
next
  case (Cons c cs)
  from Cons.prems(1) obtain v where v: "val c = Some v"
    by auto
  show ?case
  proof (cases "sublist cookieExperimentA v \<or> sublist cookieExperimentB v")
    case True
    with v show ?thesis
      by (auto simp add: scan_cookies_Cons simp del: scan_cookies.simps)
  next
    case False
    with v Cons.prems have "\<exists>e \<in> set cs. \<exists>v. val e = Some v
           \<and> (sublist cookieExperimentA v \<or> sublist cookieExperimentB v)"
      by auto
    moreover from Cons.prems(1) have "\<forall>e \<in> set cs. \<exists>v. val e = Some v"
      by simp
    ultimately have "\<exists>st'. scan_cookies cs st = Inr st' \<and> cookiePresent st'"
      by (rule Cons.IH [rotated])
    with v False show ?thesis
      by (simp add: scan_cookies_Cons del: scan_cookies.simps)
  qed
qed

lemma handler_on_request:
  assumes "viewer_request event = Inr (Some req)"
    and "request.headers req = Some hs"
  shows "handler event random =
     (case (case map_of hs ''cookie'' of
              None \<Rightarrow> Inr initial_state
            | Some cookie \<Rightarrow> scan_cookies cookie initial_state) of
        Inl e \<Rightarrow> Inl e
      | Inr st \<Rightarrow>
          if \<not> cookiePresent st then Inr (Redirect (redirect_to (throw_dice random)))
          else Inr (Forward req))"
  using assms by (simp add: handler_def)

lemma handler_unassigned:
  assumes "viewer_request event = Inr (Some req)"
    and "request.headers req = Some hs"
    and "case map_of hs ''cookie'' of
           None \<Rightarrow> True
         | Some cookie \<Rightarrow>
             \<forall>e \<in> set cookie. \<exists>v. val e = Some v \<and> \<not> sublist cookieExperimentA v
               \<and> \<not> sublist cookieExperimentB v"
  shows "handler event random = Inr (Redirect (redirect_to (throw_dice random)))"
  using assms(3)
  by (simp add: handler_on_request [OF assms(1,2)] scan_cookies_unrecognized initial_state_def
      split: option.splits)

lemma scan_cookies_A_before_B:
  assumes "\<forall>p \<in> set pre. \<exists>v. val p = Some v \<and> \<not> sublist cookieExperimentB v"
    and "val c = Some v"
    and "sublist cookieExperimentA v"
  shows "scan_cookies (pre @ c # post) st =
           Inr (st\<lparr>selectedExperiment := cookieExperimentA, cookiePresent := True\<rparr>)"
  using assms(1)
proof (induction pre)
  case Nil
  from assms(2,3) show ?case
    by (simp add: scan_cookies_Cons del: scan_cookies.simps)
next
  case (Cons p pre)
  then obtain w where "val p = Some w" "\<not> sublist cookieExperimentB w"
    by auto
  with Cons show ?case
    by (simp add: scan_cookies_Cons del: scan_cookies.simps)
qed

lemma scan_cookies_first_B:
  assumes "\<forall>p \<in> set pre. \<exists>v. val p = Some v \<and> \<not> sublist cookieExperimentA v
             \<and> \<not> sublist cookieExperimentB v"
    and "val c = Some v"
    and "\<not> sublist cookieExperimentA v"
    and "sublist cookieExperimentB v"
  shows "scan_cookies (pre @ c # post) st =
           Inr (st\<lparr>selectedExperiment := cookieExperimentB, cookiePresent := True\<rparr>)"
  using assms(2,3,4)
  by (simp add: scan_cookies_skip [OF assms(1)] scan_cookies_Cons del: scan_cookies.simps)

lemma scan_cookies_missing_value:
  assumes "\<forall>p \<in> set pre. \<exists>v. val p = Some v \<and> \<not> sublist cookieExperimentA v
             \<and> \<not> sublist cookieExperimentB v"
    and "val c = None"
  shows "scan_cookies (pre @ c # post) st = Inl TypeError"
  using assms(2) by (simp add: scan_cookies_skip [OF assms(1)])

lemma scan_cookies_total:
  assumes "\<forall>e \<in> set cs. \<exists>v. val e = Some v"
  shows "\<exists>st'. scan_cookies cs st = Inr st'"
  using assms
proof (induction cs)
  case Nil
  then show ?case by simp
next
  case (Cons c cs)
  then obtain v where "val c = Some v"
    by auto
  with Cons show ?case
    by (simp add: scan_cookies_Cons del: scan_cookies.simps)
qed

lemma marker_B_lacks_A: "\<not> sublist cookieExperimentA cookieExperimentB"
  by (simp add: cookieExperimentA_def cookieExperimentB_def sublist_Cons_right)

lemma handler_assigned:
  assumes "viewer_request event = Inr (Some req)"
    and "request.headers req = Some hs"
    and "map_of hs ''cookie'' = Some cookie"
    and "scan_cookies cookie initial_state = Inr st"
    and "cookiePresent st"
  shows "handler event random = Inr (Forward req)"
  using assms(3,4,5) by (simp add: handler_on_request [OF assms(1,2)])

text \<open>Every response is the request read from the event or the redirect for the draw.\<close>

lemma handler_cases:
  assumes "handler event random = Inr out"
  shows "(\<exists>req. viewer_request event = Inr (Some req) \<and> out = Forward req)
       \<or> out = Redirect (redirect_to (throw_dice random))"
  using assms
  by (auto simp: handler_def split: sum.splits option.splits if_splits)

text \<open>The two redirects the handler can build, written out.\<close>

lemma redirect_to_A:
  "redirect_to cookieExperimentA =
     \<lparr>status = ''302'', statusDescription = ''Found'',
      redirect.headers =
        [(''location'', [\<lparr>key = Some ''Location'', val = Some ''/''\<rparr>]),
         (''set-cookie'', [\<lparr>key = Some ''Set-Cookie'', val = Some ''X-Experiment-Name=A''\<rparr>])]\<rparr>"
  by (simp add: redirect_to_def cookieExperimentA_def cookieExperimentB_def)

lemma redirect_to_B:
  "redirect_to cookieExperimentB =
     \<lparr>status = ''302'', statusDescription = ''Found'',
      redirect.headers =
        [(''location'', [\<lparr>key = Some ''Location'', val = Some ''/blue/''\<rparr>]),
         (''set-cookie'', [\<lparr>key = Some ''Set-Cookie'', val = Some ''X-Experiment-Name=B''\<rparr>])]\<rparr>"
  by (simp add: redirect_to_def cookieExperimentB_def groupBUri_def)

lemma redirect_to_throw_dice:
  "redirect_to (throw_dice random) =
     (if random < 0.75 then redirect_to cookieExperimentA else redirect_to cookieExperimentB)"
  by (simp add: throw_dice_def)

subsection \<open>Claims\<close>

text \<open>
  C1. A request whose cookie entries all carry a string value, one of them containing
  \<open>X-Experiment-Name=A\<close> or \<open>X-Experiment-Name=B\<close>, is answered with the request itself:
  the very object read from the event, so no field is changed, no header is added and no
  redirect is made, whatever the random draw.
\<close>

theorem recognized_cookie_passes_through:
  assumes "viewer_request event = Inr (Some req)"
    and "request.headers req = Some hs"
    and "map_of hs ''cookie'' = Some cookie"
    and "\<forall>e \<in> set cookie. \<exists>v. val e = Some v"
    and "\<exists>e \<in> set cookie. \<exists>v. val e = Some v
           \<and> (sublist ''X-Experiment-Name=A'' v \<or> sublist ''X-Experiment-Name=B'' v)"
  shows "handler event random = Inr (Forward req)"
proof -
  from assms(5) have "\<exists>e \<in> set cookie. \<exists>v. val e = Some v
           \<and> (sublist cookieExperimentA v \<or> sublist cookieExperimentB v)"
    by (simp add: cookieExperimentA_def cookieExperimentB_def)
  with assms(4) obtain st' where "scan_cookies cookie initial_state = Inr st'" "cookiePresent st'"
    using scan_cookies_present by blast
  with assms(3) show ?thesis
    by (simp add: handler_on_request [OF assms(1,2)])
qed

theorem recognized_cookie_passes_through_witness:
  "handler
     \<lparr>Records = Some [\<lparr>cf = Some \<lparr>request = Some
        \<lparr>request.headers = Some
           [(''host'', [\<lparr>key = Some ''Host'', val = Some ''example.org''\<rparr>]),
            (''cookie'', [\<lparr>key = Some ''Cookie'', val = Some ''theme=dark''\<rparr>,
                          \<lparr>key = Some ''Cookie'', val = Some ''sid=7; X-Experiment-Name=B''\<rparr>])]\<rparr>\<rparr>\<rparr>]\<rparr>
     (1 / 2)
   = Inr (Forward
        \<lparr>request.headers = Some
           [(''host'', [\<lparr>key = Some ''Host'', val = Some ''example.org''\<rparr>]),
            (''cookie'', [\<lparr>key = Some ''Cookie'', val = Some ''theme=dark''\<rparr>,
                          \<lparr>key = Some ''Cookie'', val = Some ''sid=7; X-Experiment-Name=B''\<rparr>])]\<rparr>)"
proof -
  let ?cookie = "[\<lparr>key = Some ''Cookie'', val = Some ''theme=dark''\<rparr>,
                  \<lparr>key = Some ''Cookie'', val = Some ''sid=7; X-Experiment-Name=B''\<rparr>]"
  let ?hs = "[(''host'', [\<lparr>key = Some ''Host'', val = Some ''example.org''\<rparr>]),
              (''cookie'', ?cookie)]"
  let ?req = "\<lparr>request.headers = Some ?hs\<rparr>"
  let ?event = "\<lparr>Records = Some [\<lparr>cf = Some \<lparr>request = Some ?req\<rparr>\<rparr>]\<rparr>"
  have "viewer_request ?event = Inr (Some ?req)"
    by (simp add: viewer_request_def)
  moreover have "request.headers ?req = Some ?hs"
    by simp
  moreover have "map_of ?hs ''cookie'' = Some ?cookie"
    by simp
  moreover have "\<forall>e \<in> set ?cookie. \<exists>v. val e = Some v"
    by simp
  moreover have "\<exists>e \<in> set ?cookie. \<exists>v. val e = Some v
      \<and> (sublist ''X-Experiment-Name=A'' v \<or> sublist ''X-Experiment-Name=B'' v)"
    by (simp add: sublist_Cons_right)
  ultimately show ?thesis
    by (rule recognized_cookie_passes_through)
qed

text \<open>
  C2. A request with no \<open>cookie\<close> header is answered with a redirect of status \<open>302\<close>
  and statusDescription \<open>Found\<close>; its Set-Cookie value is one of the two marker
  literals, and its Location value is \<open>/\<close> with the A marker and \<open>/blue/\<close> with the B
  marker.
\<close>

theorem no_cookie_header_redirects:
  assumes "viewer_request event = Inr (Some req)"
    and "request.headers req = Some hs"
    and "map_of hs ''cookie'' = None"
  shows "\<exists>resp c l.
      handler event random = Inr (Redirect resp)
    \<and> status resp = ''302''
    \<and> statusDescription resp = ''Found''
    \<and> map_of (redirect.headers resp) ''set-cookie'' = Some [\<lparr>key = Some ''Set-Cookie'', val = Some c\<rparr>]
    \<and> map_of (redirect.headers resp) ''location'' = Some [\<lparr>key = Some ''Location'', val = Some l\<rparr>]
    \<and> (c = ''X-Experiment-Name=A'' \<and> l = ''/'' \<or> c = ''X-Experiment-Name=B'' \<and> l = ''/blue/'')"
proof -
  have "handler event random = Inr (Redirect (redirect_to (throw_dice random)))"
    using assms by (simp add: handler_unassigned)
  then show ?thesis
    by (simp add: redirect_to_throw_dice redirect_to_A redirect_to_B)
qed

theorem no_cookie_header_redirects_witness:
  "\<exists>resp c l.
      handler
        \<lparr>Records = Some [\<lparr>cf = Some \<lparr>request = Some
           \<lparr>request.headers = Some
              [(''host'', [\<lparr>key = Some ''Host'', val = Some ''example.org''\<rparr>])]\<rparr>\<rparr>\<rparr>]\<rparr>
        (9 / 10) = Inr (Redirect resp :: unit response)
    \<and> status resp = ''302''
    \<and> statusDescription resp = ''Found''
    \<and> map_of (redirect.headers resp) ''set-cookie'' = Some [\<lparr>key = Some ''Set-Cookie'', val = Some c\<rparr>]
    \<and> map_of (redirect.headers resp) ''location'' = Some [\<lparr>key = Some ''Location'', val = Some l\<rparr>]
    \<and> (c = ''X-Experiment-Name=A'' \<and> l = ''/'' \<or> c = ''X-Experiment-Name=B'' \<and> l = ''/blue/'')"
proof -
  let ?hs = "[(''host'', [\<lparr>key = Some ''Host'', val = Some ''example.org''\<rparr>])]"
  let ?req = "\<lparr>request.headers = Some ?hs\<rparr>"
  let ?event = "\<lparr>Records = Some [\<lparr>cf = Some \<lparr>request = Some ?req\<rparr>\<rparr>]\<rparr>"
  have "viewer_request ?event = Inr (Some ?req)"
    by (simp add: viewer_request_def)
  moreover have "request.headers ?req = Some ?hs"
    by simp
  moreover have "map_of ?hs ''cookie'' = None"
    by simp
  ultimately show ?thesis
    by (rule no_cookie_header_redirects)
qed

text \<open>
  C3. When no cookie entry holds a marker (no \<open>cookie\<close> header, or only string values
  with neither marker), the draw \<open>random\<close> decides: the redirect sets the A marker
  exactly when \<open>random < 0.75\<close> and the B marker exactly when \<open>0.75 \<le> random\<close>, so
  \<open>0.75\<close> itself gives B. This holds for every real \<open>random\<close>, those in \<open>[0, 1)\<close>
  among them.
\<close>

theorem dice_threshold:
  assumes "viewer_request event = Inr (Some req)"
    and "request.headers req = Some hs"
    and "case map_of hs ''cookie'' of
           None \<Rightarrow> True
         | Some cookie \<Rightarrow>
             \<forall>e \<in> set cookie. \<exists>v. val e = Some v \<and> \<not> sublist ''X-Experiment-Name=A'' v
               \<and> \<not> sublist ''X-Experiment-Name=B'' v"
  shows "\<exists>resp c.
      handler event random = Inr (Redirect resp)
    \<and> map_of (redirect.headers resp) ''set-cookie'' = Some [\<lparr>key = Some ''Set-Cookie'', val = Some c\<rparr>]
    \<and> (c = ''X-Experiment-Name=A'' \<longleftrightarrow> random < 0.75)
    \<and> (c = ''X-Experiment-Name=B'' \<longleftrightarrow> 0.75 \<le> random)"
proof -
  have "case map_of hs ''cookie'' of
           None \<Rightarrow> True
         | Some cookie \<Rightarrow>
             \<forall>e \<in> set cookie. \<exists>v. val e = Some v \<and> \<not> sublist cookieExperimentA v
               \<and> \<not> sublist cookieExperimentB v"
    using assms(3) unfolding cookieExperimentA_def cookieExperimentB_def .
  then have "handler event random = Inr (Redirect (redirect_to (throw_dice random)))"
    by (rule handler_unassigned [OF assms(1,2)])
  then show ?thesis
    by (simp add: redirect_to_throw_dice redirect_to_A redirect_to_B)
qed

theorem dice_threshold_witness:
  "\<exists>resp.
      handler
        \<lparr>Records = Some [\<lparr>cf = Some \<lparr>request = Some
           \<lparr>request.headers = Some
              [(''cookie'', [\<lparr>key = Some ''Cookie'', val = Some ''theme=dark''\<rparr>])]\<rparr>\<rparr>\<rparr>]\<rparr>
        0.75 = Inr (Redirect resp :: unit response)
    \<and> map_of (redirect.headers resp) ''set-cookie''
        = Some [\<lparr>key = Some ''Set-Cookie'', val = Some ''X-Experiment-Name=B''\<rparr>]"
proof -
  let ?cookie = "[\<lparr>key = Some ''Cookie'', val = Some ''theme=dark''\<rparr>]"
  let ?hs = "[(''cookie'', ?cookie)]"
  let ?req = "\<lparr>request.headers = Some ?hs\<rparr>"
  let ?event = "\<lparr>Records = Some [\<lparr>cf = Some \<lparr>request = Some ?req\<rparr>\<rparr>]\<rparr>"
  have "viewer_request ?event = Inr (Some ?req)"
    by (simp add: viewer_request_def)
  moreover have "request.headers ?req = Some ?hs"
    by simp
  moreover have "case map_of ?hs ''cookie'' of
           None \<Rightarrow> True
         | Some cookie \<Rightarrow>
             \<forall>e \<in> set cookie. \<exists>v. val e = Some v \<and> \<not> sublist ''X-Experiment-Name=A'' v
               \<and> \<not> sublist ''X-Experiment-Name=B'' v"
    by (simp add: sublist_Cons_right)
  ultimately obtain resp c where
    "handler ?event 0.75 = Inr (Redirect resp)"
    "map_of (redirect.headers resp) ''set-cookie'' = Some [\<lparr>key = Some ''Set-Cookie'', val = Some c\<rparr>]"
    "c = ''X-Experiment-Name=B'' \<longleftrightarrow> (0.75 :: real) \<le> 0.75"
    using dice_threshold [of ?event ?req ?hs "0.75"] by blast
  then show ?thesis
    by simp
qed

text \<open>
  C4. Sticky assignment. A request with no \<open>cookie\<close> header is answered, for every draw
  \<open>random1\<close>, with a redirect whose Set-Cookie value is some \<open>v\<close>; a later request whose
  only cookie entry has the value \<open>v\<close> is answered with that request itself, for every draw
  \<open>random2\<close>, and the loop leaves \<open>selectedExperiment = v\<close>: the variant recognized is the
  variant assigned, and no new variant is drawn.
\<close>

theorem sticky_assignment:
  assumes "viewer_request event1 = Inr (Some req1)"
    and "request.headers req1 = Some hs1"
    and "map_of hs1 ''cookie'' = None"
    and "viewer_request event2 = Inr (Some req2)"
    and "request.headers req2 = Some hs2"
    and "map_of hs2 ''cookie'' = Some [e]"
  shows "\<exists>resp v.
      handler event1 random1 = Inr (Redirect resp)
    \<and> map_of (redirect.headers resp) ''set-cookie'' = Some [\<lparr>key = Some ''Set-Cookie'', val = Some v\<rparr>]
    \<and> (val e = Some v \<longrightarrow>
          handler event2 random2 = Inr (Forward req2)
        \<and> scan_cookies [e] initial_state = Inr \<lparr>selectedExperiment = v, cookiePresent = True\<rparr>)"
proof -
  let ?v = "throw_dice random1"
  have first: "handler event1 random1 = Inr (Redirect (redirect_to ?v))"
    using assms(1,2,3) by (simp add: handler_unassigned)
  have cookie: "map_of (redirect.headers (redirect_to ?v)) ''set-cookie''
      = Some [\<lparr>key = Some ''Set-Cookie'', val = Some ?v\<rparr>]"
    by (simp add: redirect_to_def)
  have second: "handler event2 random2 = Inr (Forward req2)
      \<and> scan_cookies [e] initial_state = Inr \<lparr>selectedExperiment = ?v, cookiePresent = True\<rparr>"
    if e: "val e = Some ?v"
  proof -
    have scan: "scan_cookies [e] initial_state
        = Inr \<lparr>selectedExperiment = ?v, cookiePresent = True\<rparr>"
    proof (cases "random1 < 0.75")
      case True
      then have "val e = Some cookieExperimentA" "?v = cookieExperimentA"
        using e by (simp_all add: throw_dice_def)
      then show ?thesis
        using scan_cookies_A_before_B [of "[]" e cookieExperimentA "[]" initial_state]
        by (simp add: initial_state_def)
    next
      case False
      then have "val e = Some cookieExperimentB" "?v = cookieExperimentB"
        using e by (simp_all add: throw_dice_def)
      then show ?thesis
        using scan_cookies_first_B [of "[]" e cookieExperimentB "[]" initial_state]
        by (simp add: initial_state_def marker_B_lacks_A)
    qed
    have "handler event2 random2 = Inr (Forward req2)"
      by (rule handler_assigned [OF assms(4,5,6) scan]) simp
    with scan show ?thesis
      by simp
  qed
  from first cookie second show ?thesis
    by blast
qed

theorem sticky_assignment_witness:
  "handler
     \<lparr>Records = Some [\<lparr>cf = Some \<lparr>request = Some \<lparr>request.headers = Some []\<rparr>\<rparr>\<rparr>]\<rparr>
     (4 / 5)
   = Inr (Redirect
        \<lparr>status = ''302'', statusDescription = ''Found'',
         redirect.headers =
           [(''location'', [\<lparr>key = Some ''Location'', val = Some ''/blue/''\<rparr>]),
            (''set-cookie'',
               [\<lparr>key = Some ''Set-Cookie'', val = Some ''X-Experiment-Name=B''\<rparr>])]\<rparr>
        :: unit response)
   \<and> handler
     \<lparr>Records = Some [\<lparr>cf = Some \<lparr>request = Some \<lparr>request.headers = Some
        [(''cookie'', [\<lparr>key = Some ''Cookie'', val = Some ''X-Experiment-Name=B''\<rparr>])]\<rparr>\<rparr>\<rparr>]\<rparr>
     (1 / 5)
   = Inr (Forward \<lparr>request.headers = Some
        [(''cookie'', [\<lparr>key = Some ''Cookie'', val = Some ''X-Experiment-Name=B''\<rparr>])]\<rparr>)
   \<and> scan_cookies [\<lparr>key = Some ''Cookie'', val = Some ''X-Experiment-Name=B''\<rparr>] initial_state
   = Inr \<lparr>selectedExperiment = ''X-Experiment-Name=B'', cookiePresent = True\<rparr>"
proof -
  let ?e = "\<lparr>key = Some ''Cookie'', val = Some ''X-Experiment-Name=B''\<rparr>"
  let ?hs2 = "[(''cookie'', [?e])]"
  let ?req1 = "\<lparr>request.headers = Some []\<rparr>"
  let ?req2 = "\<lparr>request.headers = Some ?hs2\<rparr>"
  let ?event1 = "\<lparr>Records = Some [\<lparr>cf = Some \<lparr>request = Some ?req1\<rparr>\<rparr>]\<rparr>"
  let ?event2 = "\<lparr>Records = Some [\<lparr>cf = Some \<lparr>request = Some ?req2\<rparr>\<rparr>]\<rparr>"
  have first: "handler ?event1 (4 / 5) = Inr (Redirect (redirect_to ''X-Experiment-Name=B''))"
    by (simp add: handler_def viewer_request_def initial_state_def throw_dice_def
        cookieExperimentB_def)
  have "viewer_request ?event1 = Inr (Some ?req1)"
    by (simp add: viewer_request_def)
  moreover have "request.headers ?req1 = Some []"
    by simp
  moreover have "map_of [] ''cookie'' = (None :: header_entry list option)"
    by simp
  moreover have "viewer_request ?event2 = Inr (Some ?req2)"
    by (simp add: viewer_request_def)
  moreover have "request.headers ?req2 = Some ?hs2"
    by simp
  moreover have "map_of ?hs2 ''cookie'' = Some [?e]"
    by simp
  ultimately obtain resp v where
    "handler ?event1 (4 / 5) = Inr (Redirect resp)"
    "map_of (redirect.headers resp) ''set-cookie'' = Some [\<lparr>key = Some ''Set-Cookie'', val = Some v\<rparr>]"
    "val ?e = Some v \<longrightarrow>
       handler ?event2 (1 / 5) = Inr (Forward ?req2)
     \<and> scan_cookies [?e] initial_state = Inr \<lparr>selectedExperiment = v, cookiePresent = True\<rparr>"
    using sticky_assignment [of ?event1 ?req1 "[]" ?event2 ?req2 ?hs2 ?e "4 / 5" "1 / 5"]
    by blast
  with first show ?thesis
    by (simp add: redirect_to_def cookieExperimentB_def groupBUri_def)
qed

text \<open>
  C5, as stated, fails: the handler has no \<open>try\<close>/\<open>catch\<close>, so an event without
  \<open>Records\<close> and a cookie entry without a \<open>value\<close> both end in a \<open>TypeError\<close> instead
  of a response.
\<close>

theorem handler_throws_counterexample:
  "handler (\<lparr>Records = None\<rparr> :: unit event) (1 / 2) = Inl TypeError
   \<and> handler
       \<lparr>Records = Some [\<lparr>cf = Some \<lparr>request = Some \<lparr>request.headers = Some
          [(''cookie'', [\<lparr>key = Some ''Cookie'', val = None\<rparr>])]\<rparr>\<rparr>\<rparr>]\<rparr>
       (1 / 2)
     = (Inl TypeError :: js_error + unit response)"
  by (simp add: handler_def viewer_request_def)

text \<open>
  C5, amended. For every event that has \<open>Records[0].cf.request\<close> with a \<open>headers\<close>
  object and whose cookie entries, if any, all have a string value, the handler completes
  without throwing: it returns the request itself or a redirect.
\<close>

theorem handler_completes_on_well_formed:
  assumes "viewer_request event = Inr (Some req)"
    and "request.headers req = Some hs"
    and "\<forall>cookie. map_of hs ''cookie'' = Some cookie \<longrightarrow> (\<forall>e \<in> set cookie. \<exists>v. val e = Some v)"
  shows "handler event random = Inr (Forward req)
       \<or> (\<exists>resp. handler event random = Inr (Redirect resp))"
proof (cases "map_of hs ''cookie''")
  case None
  then show ?thesis
    by (simp add: handler_on_request [OF assms(1,2)] initial_state_def)
next
  case (Some cookie)
  with assms(3) have "\<forall>e \<in> set cookie. \<exists>v. val e = Some v"
    by simp
  then obtain st where "scan_cookies cookie initial_state = Inr st"
    using scan_cookies_total by blast
  with Some show ?thesis
    by (simp add: handler_on_request [OF assms(1,2)])
qed

theorem handler_completes_on_well_formed_witness:
  "handler
     \<lparr>Records = Some [\<lparr>cf = Some \<lparr>request = Some \<lparr>request.headers = Some
        [(''cookie'', [\<lparr>key = Some ''Cookie'', val = Some ''theme=dark''\<rparr>])]\<rparr>\<rparr>\<rparr>]\<rparr>
     (1 / 2)
   = Inr (Forward \<lparr>request.headers = Some
        [(''cookie'', [\<lparr>key = Some ''Cookie'', val = Some ''theme=dark''\<rparr>])]\<rparr>)
   \<or> (\<exists>resp. handler
     \<lparr>Records = Some [\<lparr>cf = Some \<lparr>request = Some \<lparr>request.headers = Some
        [(''cookie'', [\<lparr>key = Some ''Cookie'', val = Some ''theme=dark''\<rparr>])]\<rparr>\<rparr>\<rparr>]\<rparr>
     (1 / 2)
   = Inr (Redirect resp))"
proof -
  let ?hs = "[(''cookie'', [\<lparr>key = Some ''Cookie'', val = Some ''theme=dark''\<rparr>])]"
  let ?req = "\<lparr>request.headers = Some ?hs\<rparr>"
  let ?event = "\<lparr>Records = Some [\<lparr>cf = Some \<lparr>request = Some ?req\<rparr>\<rparr>]\<rparr>"
  have "viewer_request ?event = Inr (Some ?req)"
    by (simp add: viewer_request_def)
  moreover have "request.headers ?req = Some ?hs"
    by simp
  moreover have "\<forall>cookie. map_of ?hs ''cookie'' = Some cookie
      \<longrightarrow> (\<forall>e \<in> set cookie. \<exists>v. val e = Some v)"
    by auto
  ultimately show ?thesis
    by (rule handler_completes_on_well_formed)
qed

text \<open>
  C6, as stated, fails. In the cookie list below the second entry holds the A marker and
  the third, later, entry holds the B marker, yet the decision is B: the first entry
  holds the B marker alone, and the loop stops there.
\<close>

theorem first_match_literal_counterexample:
  "sublist ''X-Experiment-Name=A'' ''sid=7; X-Experiment-Name=A''
   \<and> sublist ''X-Experiment-Name=B'' ''X-Experiment-Name=B; theme=dark''
   \<and> scan_cookies
       [\<lparr>key = Some ''Cookie'', val = Some ''X-Experiment-Name=B''\<rparr>,
        \<lparr>key = Some ''Cookie'', val = Some ''sid=7; X-Experiment-Name=A''\<rparr>,
        \<lparr>key = Some ''Cookie'', val = Some ''X-Experiment-Name=B; theme=dark''\<rparr>]
       initial_state
     = Inr \<lparr>selectedExperiment = ''X-Experiment-Name=B'', cookiePresent = True\<rparr>
   \<and> ''X-Experiment-Name=B'' \<noteq> ''X-Experiment-Name=A''
   \<and> handler
       \<lparr>Records = Some [\<lparr>cf = Some \<lparr>request = Some \<lparr>request.headers = Some
          [(''cookie'',
             [\<lparr>key = Some ''Cookie'', val = Some ''X-Experiment-Name=B''\<rparr>,
              \<lparr>key = Some ''Cookie'', val = Some ''sid=7; X-Experiment-Name=A''\<rparr>,
              \<lparr>key = Some ''Cookie'', val = Some ''X-Experiment-Name=B; theme=dark''\<rparr>])]\<rparr>\<rparr>\<rparr>]\<rparr>
       (1 / 2)
     = Inr (Forward \<lparr>request.headers = Some
          [(''cookie'',
             [\<lparr>key = Some ''Cookie'', val = Some ''X-Experiment-Name=B''\<rparr>,
              \<lparr>key = Some ''Cookie'', val = Some ''sid=7; X-Experiment-Name=A''\<rparr>,
              \<lparr>key = Some ''Cookie'', val = Some ''X-Experiment-Name=B; theme=dark''\<rparr>])]\<rparr>)"
  by (simp add: handler_def viewer_request_def initial_state_def indexOf_def
      cookieExperimentA_def cookieExperimentB_def sublist_Cons_right)

text \<open>
  C6, amended. First match wins, in both directions. Let \<open>c\<close> be the first cookie entry
  that holds a marker: the entries \<open>pre\<close> before it are strings with neither marker. Then
  the loop stops at \<open>c\<close> and the decision is the variant of \<open>c\<close> alone: A when \<open>c\<close> holds
  the A marker, B otherwise. The request is passed through. The later entries \<open>post\<close>
  are arbitrary and change nothing: a B marker after an A entry does not turn the
  decision to B, and an A marker after a B entry does not turn it to A.
\<close>

theorem first_match_wins:
  assumes "viewer_request event = Inr (Some req)"
    and "request.headers req = Some hs"
    and "map_of hs ''cookie'' = Some (pre @ c # post)"
    and "\<forall>p \<in> set pre. \<exists>v. val p = Some v \<and> \<not> sublist ''X-Experiment-Name=A'' v
           \<and> \<not> sublist ''X-Experiment-Name=B'' v"
    and "val c = Some v"
    and "sublist ''X-Experiment-Name=A'' v \<or> sublist ''X-Experiment-Name=B'' v"
  shows "scan_cookies (pre @ c # post) initial_state
           = Inr \<lparr>selectedExperiment =
                    (if sublist ''X-Experiment-Name=A'' v then ''X-Experiment-Name=A''
                     else ''X-Experiment-Name=B''),
                  cookiePresent = True\<rparr>
       \<and> handler event random = Inr (Forward req)"
proof -
  have pre: "\<forall>p \<in> set pre. \<exists>v. val p = Some v \<and> \<not> sublist cookieExperimentA v
           \<and> \<not> sublist cookieExperimentB v"
    using assms(4) by (simp add: cookieExperimentA_def cookieExperimentB_def)
  have scan: "scan_cookies (pre @ c # post) initial_state
      = Inr \<lparr>selectedExperiment =
               (if sublist ''X-Experiment-Name=A'' v then ''X-Experiment-Name=A''
                else ''X-Experiment-Name=B''),
             cookiePresent = True\<rparr>"
  proof (cases "sublist ''X-Experiment-Name=A'' v")
    case True
    then have "sublist cookieExperimentA v"
      by (simp add: cookieExperimentA_def)
    moreover from pre have "\<forall>p \<in> set pre. \<exists>v. val p = Some v \<and> \<not> sublist cookieExperimentB v"
      by blast
    ultimately have "scan_cookies (pre @ c # post) initial_state
        = Inr (initial_state\<lparr>selectedExperiment := cookieExperimentA, cookiePresent := True\<rparr>)"
      using assms(5) by (intro scan_cookies_A_before_B)
    with True show ?thesis
      by (simp add: initial_state_def cookieExperimentA_def)
  next
    case False
    with assms(6) have "\<not> sublist cookieExperimentA v" "sublist cookieExperimentB v"
      by (simp_all add: cookieExperimentA_def cookieExperimentB_def)
    with pre assms(5) have "scan_cookies (pre @ c # post) initial_state
        = Inr (initial_state\<lparr>selectedExperiment := cookieExperimentB, cookiePresent := True\<rparr>)"
      by (intro scan_cookies_first_B)
    with False show ?thesis
      by (simp add: initial_state_def cookieExperimentB_def)
  qed
  have "handler event random = Inr (Forward req)"
    by (rule handler_assigned [OF assms(1,2,3) scan]) simp
  with scan show ?thesis
    by simp
qed

theorem first_match_wins_witness:
  "scan_cookies
     ([\<lparr>key = Some ''Cookie'', val = Some ''theme=dark''\<rparr>]
      @ \<lparr>key = Some ''Cookie'', val = Some ''sid=7; X-Experiment-Name=B''\<rparr>
      # [\<lparr>key = Some ''Cookie'', val = Some ''X-Experiment-Name=A''\<rparr>])
     initial_state
   = Inr \<lparr>selectedExperiment = ''X-Experiment-Name=B'', cookiePresent = True\<rparr>
   \<and> handler
     \<lparr>Records = Some [\<lparr>cf = Some \<lparr>request = Some \<lparr>request.headers = Some
        [(''cookie'',
           [\<lparr>key = Some ''Cookie'', val = Some ''theme=dark''\<rparr>]
           @ \<lparr>key = Some ''Cookie'', val = Some ''sid=7; X-Experiment-Name=B''\<rparr>
           # [\<lparr>key = Some ''Cookie'', val = Some ''X-Experiment-Name=A''\<rparr>])]\<rparr>\<rparr>\<rparr>]\<rparr>
     (1 / 10)
   = Inr (Forward \<lparr>request.headers = Some
        [(''cookie'',
           [\<lparr>key = Some ''Cookie'', val = Some ''theme=dark''\<rparr>]
           @ \<lparr>key = Some ''Cookie'', val = Some ''sid=7; X-Experiment-Name=B''\<rparr>
           # [\<lparr>key = Some ''Cookie'', val = Some ''X-Experiment-Name=A''\<rparr>])]\<rparr>)"
proof -
  let ?pre = "[\<lparr>key = Some ''Cookie'', val = Some ''theme=dark''\<rparr>]"
  let ?c = "\<lparr>key = Some ''Cookie'', val = Some ''sid=7; X-Experiment-Name=B''\<rparr>"
  let ?post = "[\<lparr>key = Some ''Cookie'', val = Some ''X-Experiment-Name=A''\<rparr>]"
  let ?hs = "[(''cookie'', ?pre @ ?c # ?post)]"
  let ?req = "\<lparr>request.headers = Some ?hs\<rparr>"
  let ?event = "\<lparr>Records = Some [\<lparr>cf = Some \<lparr>request = Some ?req\<rparr>\<rparr>]\<rparr>"
  have not_A: "\<not> sublist ''X-Experiment-Name=A'' ''sid=7; X-Experiment-Name=B''"
    by (simp add: sublist_Cons_right)
  have "viewer_request ?event = Inr (Some ?req)"
    by (simp add: viewer_request_def)
  moreover have "request.headers ?req = Some ?hs"
    by simp
  moreover have "map_of ?hs ''cookie'' = Some (?pre @ ?c # ?post)"
    by simp
  moreover have "\<forall>p \<in> set ?pre. \<exists>v. val p = Some v \<and> \<not> sublist ''X-Experiment-Name=A'' v
           \<and> \<not> sublist ''X-Experiment-Name=B'' v"
    by (simp add: sublist_Cons_right)
  moreover have "val ?c = Some ''sid=7; X-Experiment-Name=B''"
    by simp
  moreover have "sublist ''X-Experiment-Name=A'' ''sid=7; X-Experiment-Name=B''
      \<or> sublist ''X-Experiment-Name=B'' ''sid=7; X-Experiment-Name=B''"
    by (simp add: sublist_Cons_right)
  ultimately have "scan_cookies (?pre @ ?c # ?post) initial_state
           = Inr \<lparr>selectedExperiment =
                    (if sublist ''X-Experiment-Name=A'' ''sid=7; X-Experiment-Name=B''
                     then ''X-Experiment-Name=A'' else ''X-Experiment-Name=B''),
                  cookiePresent = True\<rparr>
       \<and> handler ?event (1 / 10) = Inr (Forward ?req)"
    by (rule first_match_wins)
  with not_A show ?thesis
    by simp
qed

text \<open>
  C7, as stated, fails on the names of the headers object: the redirect's \<^emph>\<open>entries\<close> have
  the keys \<^verbatim>\<open>Location\<close> and \<^verbatim>\<open>Set-Cookie\<close>, but the properties of its
  \<^verbatim>\<open>headers\<close> object that hold them are named \<^verbatim>\<open>location\<close> and
  \<^verbatim>\<open>set-cookie\<close>, in lower case. There is no property \<^verbatim>\<open>Location\<close> or
  \<^verbatim>\<open>Set-Cookie\<close>.
\<close>

theorem redirect_header_names_counterexample:
  "handler
     \<lparr>Records = Some [\<lparr>cf = Some \<lparr>request = Some \<lparr>request.headers = Some []\<rparr>\<rparr>\<rparr>]\<rparr>
     (1 / 2)
   = Inr (Redirect
        \<lparr>status = ''302'', statusDescription = ''Found'',
         redirect.headers =
           [(''location'', [\<lparr>key = Some ''Location'', val = Some ''/''\<rparr>]),
            (''set-cookie'',
               [\<lparr>key = Some ''Set-Cookie'', val = Some ''X-Experiment-Name=A''\<rparr>])]\<rparr>
        :: unit response)
   \<and> map fst
       [(''location'', [\<lparr>key = Some ''Location'', val = Some ''/''\<rparr>]),
        (''set-cookie'', [\<lparr>key = Some ''Set-Cookie'', val = Some ''X-Experiment-Name=A''\<rparr>])]
     = [''location'', ''set-cookie'']
   \<and> map_of
       [(''location'', [\<lparr>key = Some ''Location'', val = Some ''/''\<rparr>]),
        (''set-cookie'', [\<lparr>key = Some ''Set-Cookie'', val = Some ''X-Experiment-Name=A''\<rparr>])]
       ''Location'' = None
   \<and> map_of
       [(''location'', [\<lparr>key = Some ''Location'', val = Some ''/''\<rparr>]),
        (''set-cookie'', [\<lparr>key = Some ''Set-Cookie'', val = Some ''X-Experiment-Name=A''\<rparr>])]
       ''Set-Cookie'' = None"
  by (simp add: handler_def viewer_request_def initial_state_def throw_dice_def redirect_to_def
      cookieExperimentA_def cookieExperimentB_def)

text \<open>
  C7, amended. Every redirect the handler emits is one of two objects: status
  \<^verbatim>\<open>302\<close>, statusDescription \<^verbatim>\<open>Found\<close>, and a headers object with the
  properties \<^verbatim>\<open>location\<close> and \<^verbatim>\<open>set-cookie\<close>, in this order, each a single
  entry: key \<^verbatim>\<open>Location\<close> with value \<^verbatim>\<open>/\<close> and key \<^verbatim>\<open>Set-Cookie\<close>
  with the A marker, or key \<^verbatim>\<open>Location\<close> with value \<^verbatim>\<open>/blue/\<close> and key
  \<^verbatim>\<open>Set-Cookie\<close> with the B marker.
\<close>

theorem redirect_descriptor:
  assumes "handler event random = Inr (Redirect resp)"
  shows "resp =
      \<lparr>status = ''302'', statusDescription = ''Found'',
       redirect.headers =
         [(''location'', [\<lparr>key = Some ''Location'', val = Some ''/''\<rparr>]),
          (''set-cookie'', [\<lparr>key = Some ''Set-Cookie'', val = Some ''X-Experiment-Name=A''\<rparr>])]\<rparr>
    \<or> resp =
      \<lparr>status = ''302'', statusDescription = ''Found'',
       redirect.headers =
         [(''location'', [\<lparr>key = Some ''Location'', val = Some ''/blue/''\<rparr>]),
          (''set-cookie'', [\<lparr>key = Some ''Set-Cookie'', val = Some ''X-Experiment-Name=B''\<rparr>])]\<rparr>"
proof -
  from handler_cases [OF assms] have "resp = redirect_to (throw_dice random)"
    by auto
  then show ?thesis
    by (simp add: redirect_to_throw_dice redirect_to_A redirect_to_B)
qed

theorem redirect_descriptor_witness:
  "handler
      \<lparr>Records = Some [\<lparr>cf = Some \<lparr>request = Some \<lparr>request.headers = Some
         [(''cookie'', [\<lparr>key = Some ''Cookie'', val = Some ''''\<rparr>])]\<rparr>\<rparr>\<rparr>]\<rparr>
      (3 / 4)
    = Inr (Redirect
       \<lparr>status = ''302'', statusDescription = ''Found'',
        redirect.headers =
          [(''location'', [\<lparr>key = Some ''Location'', val = Some ''/blue/''\<rparr>]),
           (''set-cookie'',
              [\<lparr>key = Some ''Set-Cookie'', val = Some ''X-Experiment-Name=B''\<rparr>])]\<rparr>)
   \<and> (\<lparr>status = ''302'', statusDescription = ''Found'',
        redirect.headers =
          [(''location'', [\<lparr>key = Some ''Location'', val = Some ''/blue/''\<rparr>]),
           (''set-cookie'',
              [\<lparr>key = Some ''Set-Cookie'', val = Some ''X-Experiment-Name=B''\<rparr>])]\<rparr>
      = \<lparr>status = ''302'', statusDescription = ''Found'',
        redirect.headers =
          [(''location'', [\<lparr>key = Some ''Location'', val = Some ''/''\<rparr>]),
           (''set-cookie'',
              [\<lparr>key = Some ''Set-Cookie'', val = Some ''X-Experiment-Name=A''\<rparr>])]\<rparr>
    \<or> \<lparr>status = ''302'', statusDescription = ''Found'',
        redirect.headers =
          [(''location'', [\<lparr>key = Some ''Location'', val = Some ''/blue/''\<rparr>]),
           (''set-cookie'',
              [\<lparr>key = Some ''Set-Cookie'', val = Some ''X-Experiment-Name=B''\<rparr>])]\<rparr>
      = \<lparr>status = ''302'', statusDescription = ''Found'',
        redirect.headers =
          [(''location'', [\<lparr>key = Some ''Location'', val = Some ''/blue/''\<rparr>]),
           (''set-cookie'',
              [\<lparr>key = Some ''Set-Cookie'', val = Some ''X-Experiment-Name=B''\<rparr>])]\<rparr>)"
proof -
  let ?event = "\<lparr>Records = Some [\<lparr>cf = Some \<lparr>request = Some \<lparr>request.headers = Some
         [(''cookie'', [\<lparr>key = Some ''Cookie'', val = Some ''''\<rparr>])]\<rparr>\<rparr>\<rparr>]\<rparr>"
  have "handler ?event (3 / 4)
      = Inr (Redirect
       \<lparr>status = ''302'', statusDescription = ''Found'',
        redirect.headers =
          [(''location'', [\<lparr>key = Some ''Location'', val = Some ''/blue/''\<rparr>]),
           (''set-cookie'',
              [\<lparr>key = Some ''Set-Cookie'', val = Some ''X-Experiment-Name=B''\<rparr>])]\<rparr>)"
    by (simp add: handler_def viewer_request_def initial_state_def throw_dice_def redirect_to_def
        indexOf_def cookieExperimentA_def cookieExperimentB_def groupBUri_def)
  then show ?thesis
    using redirect_descriptor [of ?event "3 / 4"] by blast
qed



text \<open>
  C9. The A marker is tested first on each entry. When an entry holds both markers and
  no entry before it holds the B marker, the loop selects A and the request is passed
  through; nothing is assumed on where in the value the two markers occur, so B may come
  before A.
\<close>

theorem marker_A_tested_first:
  assumes "viewer_request event = Inr (Some req)"
    and "request.headers req = Some hs"
    and "map_of hs ''cookie'' = Some (pre @ c # post)"
    and "\<forall>p \<in> set pre. \<exists>v. val p = Some v \<and> \<not> sublist ''X-Experiment-Name=B'' v"
    and "val c = Some v"
    and "sublist ''X-Experiment-Name=A'' v"
    and "sublist ''X-Experiment-Name=B'' v"
  shows "scan_cookies (pre @ c # post) initial_state
           = Inr \<lparr>selectedExperiment = ''X-Experiment-Name=A'', cookiePresent = True\<rparr>
       \<and> handler event random = Inr (Forward req)"
proof -
  have "\<forall>p \<in> set pre. \<exists>v. val p = Some v \<and> \<not> sublist cookieExperimentB v"
    using assms(4) by (simp add: cookieExperimentB_def)
  moreover note assms(5)
  moreover have "sublist cookieExperimentA v"
    using assms(6) by (simp add: cookieExperimentA_def)
  ultimately have "scan_cookies (pre @ c # post) initial_state
      = Inr (initial_state\<lparr>selectedExperiment := cookieExperimentA, cookiePresent := True\<rparr>)"
    by (rule scan_cookies_A_before_B)
  then have scan: "scan_cookies (pre @ c # post) initial_state
      = Inr \<lparr>selectedExperiment = ''X-Experiment-Name=A'', cookiePresent = True\<rparr>"
    by (simp add: initial_state_def cookieExperimentA_def)
  have "handler event random = Inr (Forward req)"
    by (rule handler_assigned [OF assms(1,2,3) scan]) simp
  with scan show ?thesis
    by simp
qed

theorem marker_A_tested_first_witness:
  "scan_cookies
     ([] @ \<lparr>key = Some ''Cookie'', val = Some ''X-Experiment-Name=B; X-Experiment-Name=A''\<rparr> # [])
     initial_state
   = Inr \<lparr>selectedExperiment = ''X-Experiment-Name=A'', cookiePresent = True\<rparr>
   \<and> handler
     \<lparr>Records = Some [\<lparr>cf = Some \<lparr>request = Some \<lparr>request.headers = Some
        [(''cookie'',
           [] @ \<lparr>key = Some ''Cookie'',
                  val = Some ''X-Experiment-Name=B; X-Experiment-Name=A''\<rparr> # [])]\<rparr>\<rparr>\<rparr>]\<rparr>
     (9 / 10)
   = Inr (Forward \<lparr>request.headers = Some
        [(''cookie'',
           [] @ \<lparr>key = Some ''Cookie'',
                  val = Some ''X-Experiment-Name=B; X-Experiment-Name=A''\<rparr> # [])]\<rparr>)"
proof -
  let ?c = "\<lparr>key = Some ''Cookie'', val = Some ''X-Experiment-Name=B; X-Experiment-Name=A''\<rparr>"
  let ?hs = "[(''cookie'', [] @ ?c # [])]"
  let ?req = "\<lparr>request.headers = Some ?hs\<rparr>"
  let ?event = "\<lparr>Records = Some [\<lparr>cf = Some \<lparr>request = Some ?req\<rparr>\<rparr>]\<rparr>"
  have "viewer_request ?event = Inr (Some ?req)"
    by (simp add: viewer_request_def)
  moreover have "request.headers ?req = Some ?hs"
    by simp
  moreover have "map_of ?hs ''cookie'' = Some ([] @ ?c # [])"
    by simp
  moreover have "\<forall>p \<in> set ([] :: header_entry list).
      \<exists>v. val p = Some v \<and> \<not> sublist ''X-Experiment-Name=B'' v"
    by simp
  moreover have "val ?c = Some ''X-Experiment-Name=B; X-Experiment-Name=A''"
    by simp
  moreover have "sublist ''X-Experiment-Name=A'' ''X-Experiment-Name=B; X-Experiment-Name=A''"
    by (simp add: sublist_Cons_right)
  moreover have "sublist ''X-Experiment-Name=B'' ''X-Experiment-Name=B; X-Experiment-Name=A''"
    by (simp add: sublist_Cons_right)
  ultimately show ?thesis
    by (rule marker_A_tested_first)
qed

text \<open>
  C10. Whatever the handler returns is the request read from the event, or a redirect
  whose Location value is \<^verbatim>\<open>/blue/\<close> exactly when its Set-Cookie value is the B marker
  and \<^verbatim>\<open>/\<close> exactly when it is the A marker.
\<close>

theorem output_consistency:
  assumes "handler event random = Inr out"
  shows "(\<exists>req. viewer_request event = Inr (Some req) \<and> out = Forward req)
    \<or> (\<exists>resp l c.
          out = Redirect resp
        \<and> map_of (redirect.headers resp) ''location''
            = Some [\<lparr>key = Some ''Location'', val = Some l\<rparr>]
        \<and> map_of (redirect.headers resp) ''set-cookie''
            = Some [\<lparr>key = Some ''Set-Cookie'', val = Some c\<rparr>]
        \<and> (l = ''/blue/'' \<longleftrightarrow> c = ''X-Experiment-Name=B'')
        \<and> (l = ''/'' \<longleftrightarrow> c = ''X-Experiment-Name=A''))"
proof -
  from handler_cases [OF assms] show ?thesis
  proof
    assume "\<exists>req. viewer_request event = Inr (Some req) \<and> out = Forward req"
    then show ?thesis ..
  next
    assume "out = Redirect (redirect_to (throw_dice random))"
    then show ?thesis
      by (simp add: redirect_to_throw_dice redirect_to_A redirect_to_B)
  qed
qed

theorem output_consistency_witness:
  "handler
     \<lparr>Records = Some [\<lparr>cf = Some \<lparr>request = Some \<lparr>request.headers = Some []\<rparr>\<rparr>\<rparr>]\<rparr>
     (19 / 20)
   = Inr (Redirect
        \<lparr>status = ''302'', statusDescription = ''Found'',
         redirect.headers =
           [(''location'', [\<lparr>key = Some ''Location'', val = Some ''/blue/''\<rparr>]),
            (''set-cookie'',
               [\<lparr>key = Some ''Set-Cookie'', val = Some ''X-Experiment-Name=B''\<rparr>])]\<rparr>
        :: unit response)
   \<and> (\<exists>l c.
         map_of
           [(''location'', [\<lparr>key = Some ''Location'', val = Some ''/blue/''\<rparr>]),
            (''set-cookie'',
               [\<lparr>key = Some ''Set-Cookie'', val = Some ''X-Experiment-Name=B''\<rparr>])]
           ''location'' = Some [\<lparr>key = Some ''Location'', val = Some l\<rparr>]
       \<and> map_of
           [(''location'', [\<lparr>key = Some ''Location'', val = Some ''/blue/''\<rparr>]),
            (''set-cookie'',
               [\<lparr>key = Some ''Set-Cookie'', val = Some ''X-Experiment-Name=B''\<rparr>])]
           ''set-cookie'' = Some [\<lparr>key = Some ''Set-Cookie'', val = Some c\<rparr>]
       \<and> (l = ''/blue/'' \<longleftrightarrow> c = ''X-Experiment-Name=B'')
       \<and> (l = ''/'' \<longleftrightarrow> c = ''X-Experiment-Name=A''))"
proof -
  let ?event = "\<lparr>Records = Some [\<lparr>cf = Some \<lparr>request = Some \<lparr>request.headers = Some []\<rparr>\<rparr>\<rparr>]\<rparr>
      :: unit event"
  let ?resp = "\<lparr>status = ''302'', statusDescription = ''Found'',
         redirect.headers =
           [(''location'', [\<lparr>key = Some ''Location'', val = Some ''/blue/''\<rparr>]),
            (''set-cookie'',
               [\<lparr>key = Some ''Set-Cookie'', val = Some ''X-Experiment-Name=B''\<rparr>])]\<rparr>"
  have run: "handler ?event (19 / 20) = Inr (Redirect ?resp)"
    by (simp add: handler_def viewer_request_def initial_state_def throw_dice_def redirect_to_def
        cookieExperimentA_def cookieExperimentB_def groupBUri_def)
  from output_consistency [OF run] have "\<exists>resp l c.
          Redirect ?resp = (Redirect resp :: unit response)
        \<and> map_of (redirect.headers resp) ''location''
            = Some [\<lparr>key = Some ''Location'', val = Some l\<rparr>]
        \<and> map_of (redirect.headers resp) ''set-cookie''
            = Some [\<lparr>key = Some ''Set-Cookie'', val = Some c\<rparr>]
        \<and> (l = ''/blue/'' \<longleftrightarrow> c = ''X-Experiment-Name=B'')
        \<and> (l = ''/'' \<longleftrightarrow> c = ''X-Experiment-Name=A'')"
    by simp
  then have "\<exists>l c.
          map_of (redirect.headers ?resp) ''location''
            = Some [\<lparr>key = Some ''Location'', val = Some l\<rparr>]
        \<and> map_of (redirect.headers ?resp) ''set-cookie''
            = Some [\<lparr>key = Some ''Set-Cookie'', val = Some c\<rparr>]
        \<and> (l = ''/blue/'' \<longleftrightarrow> c = ''X-Experiment-Name=B'')
        \<and> (l = ''/'' \<longleftrightarrow> c = ''X-Experiment-Name=A'')"
    by blast
  with run show ?thesis
    by simp
qed

end
